theory Spec2Isabelle
  imports Main
begin

section \<open>Run-time values\<close>

text \<open>
  The module \<^verbatim>\<open>runtime-keybindings.ts\<close> is typed, but its types are erased when it runs,
  and two of its functions read data that was never typed: \<^verbatim>\<open>sanitizeBindings\<close> takes
  \<^verbatim>\<open>unknown\<close>, and every table lookup \<^verbatim>\<open>table[key]\<close> is a property read on a
  plain object. The model therefore works on the values the code can hold at run time.

  \<^item> strings are lists of 8-bit code units (the strings whose code units are below 256);
  \<^item> a plain object is the list of its own properties, each key once;
  \<^item> \<open>JInherited name\<close> is the value that the property \<open>name\<close> of \<^verbatim>\<open>Object.prototype\<close>
    holds: the function \<^verbatim>\<open>Object\<close> for \<^verbatim>\<open>constructor\<close>, the object
    \<^verbatim>\<open>Object.prototype\<close> itself for \<^verbatim>\<open>__proto__\<close> (what the accessor returns on
    a plain object), a built-in method for the other names. Distinct names hold distinct
    objects, so equality of the model is identity of the objects;
  \<^item> the payload of a number is never read by the module.
\<close>

datatype js_value =
    JUndefined
  | JNull
  | JBoolean bool
  | JNumber int
  | JString string
  | JArray "js_value list"
  | JObject "(string \<times> js_value) list"
  | JInherited string

text \<open>The operator \<^verbatim>\<open>typeof v\<close>.\<close>

fun typeof :: "js_value \<Rightarrow> string" where
  "typeof JUndefined = ''undefined''"
| "typeof JNull = ''object''"
| "typeof (JBoolean b) = ''boolean''"
| "typeof (JNumber n) = ''number''"
| "typeof (JString s) = ''string''"
| "typeof (JArray xs) = ''object''"
| "typeof (JObject ps) = ''object''"
| "typeof (JInherited name) = (if name = ''__proto__'' then ''object'' else ''function'')"

text \<open>The test \<^verbatim>\<open>!v\<close>, and the test \<^verbatim>\<open>if (v)\<close>.\<close>

fun falsy :: "js_value \<Rightarrow> bool" where
  "falsy JUndefined = True"
| "falsy JNull = True"
| "falsy (JBoolean b) = (b = False)"
| "falsy (JNumber n) = (n = 0)"
| "falsy (JString s) = (s = [])"
| "falsy (JArray xs) = False"
| "falsy (JObject ps) = False"
| "falsy (JInherited name) = False"

fun truthy :: "js_value \<Rightarrow> bool" where
  "truthy v = (falsy v = False)"

text \<open>
  The own property names of \<^verbatim>\<open>Object.prototype\<close>; every plain object inherits them.
\<close>

definition objectPrototypeNames :: "string list" where
  "objectPrototypeNames =
     [''constructor'', ''__defineGetter__'', ''__defineSetter__'', ''hasOwnProperty'',
      ''__lookupGetter__'', ''__lookupSetter__'', ''isPrototypeOf'', ''propertyIsEnumerable'',
      ''toString'', ''valueOf'', ''__proto__'', ''toLocaleString'']"

text \<open>
  The property read \<^verbatim>\<open>obj[key]\<close> on a plain object with the own properties \<open>props\<close>:
  an own property first, then the prototype, then \<^verbatim>\<open>undefined\<close>.
\<close>

definition getProperty :: "(string \<times> js_value) list \<Rightarrow> string \<Rightarrow> js_value" where
  "getProperty props key =
     (case map_of props key of
        Some v \<Rightarrow> v
      | None \<Rightarrow> if key \<in> set objectPrototypeNames then JInherited key else JUndefined)"

section \<open>Strings\<close>

text \<open>
  \<^verbatim>\<open>String.prototype.trim\<close> removes white space and line terminators from both ends;
  below 256 these are the code units 9 to 13, 32 and 160.
  \<^verbatim>\<open>String.prototype.toLowerCase\<close> maps \<^verbatim>\<open>A-Z\<close> and the capital letters 192 to 222
  (215, the multiplication sign, apart) to the code unit 32 above, and nothing else.
\<close>

definition isWhiteSpace :: "char \<Rightarrow> bool" where
  "isWhiteSpace c = (of_char c \<in> {9, 10, 11, 12, 13, 32, 160 :: nat})"

definition trim :: "string \<Rightarrow> string" where
  "trim s = rev (dropWhile isWhiteSpace (rev (dropWhile isWhiteSpace s)))"

definition lowerChar :: "char \<Rightarrow> char" where
  "lowerChar c =
     (let n = of_char c :: nat
      in if (65 \<le> n \<and> n \<le> 90) \<or> (192 \<le> n \<and> n \<le> 222 \<and> n \<noteq> 215)
         then char_of (n + 32) else c)"

definition toLowerCase :: "string \<Rightarrow> string" where
  "toLowerCase s = map lowerChar s"

section \<open>The action registry\<close>

datatype RebindableActionId =
    moveUp
  | moveLeft
  | moveDown
  | moveRight
  | sprint
  | interact
  | teleportToBase
  | quickHeal
  | dropItem
  | splitDropItem
  | weaponsHud
  | quickSwitchWeapon
  | chat
  | playerList
  | controlsPanel

text \<open>The property name of each action (the string the type's literal is).\<close>

fun actionName :: "RebindableActionId \<Rightarrow> string" where
  "actionName moveUp = ''moveUp''"
| "actionName moveLeft = ''moveLeft''"
| "actionName moveDown = ''moveDown''"
| "actionName moveRight = ''moveRight''"
| "actionName sprint = ''sprint''"
| "actionName interact = ''interact''"
| "actionName teleportToBase = ''teleportToBase''"
| "actionName quickHeal = ''quickHeal''"
| "actionName dropItem = ''dropItem''"
| "actionName splitDropItem = ''splitDropItem''"
| "actionName weaponsHud = ''weaponsHud''"
| "actionName quickSwitchWeapon = ''quickSwitchWeapon''"
| "actionName chat = ''chat''"
| "actionName playerList = ''playerList''"
| "actionName controlsPanel = ''controlsPanel''"

text \<open>
  \<^verbatim>\<open>BindingToken\<close> is declared as \<^verbatim>\<open>string\<close>; what a variable of that type holds when
  the module runs is whatever was assigned to it, so the model's type is the type of values.
\<close>

type_synonym BindingToken = js_value

type_synonym RuntimeKeybindings = "RebindableActionId \<Rightarrow> BindingToken"

fun DEFAULT_RUNTIME_KEYBINDINGS :: RuntimeKeybindings where
  "DEFAULT_RUNTIME_KEYBINDINGS moveUp = JString ''KeyW''"
| "DEFAULT_RUNTIME_KEYBINDINGS moveLeft = JString ''KeyA''"
| "DEFAULT_RUNTIME_KEYBINDINGS moveDown = JString ''KeyS''"
| "DEFAULT_RUNTIME_KEYBINDINGS moveRight = JString ''KeyD''"
| "DEFAULT_RUNTIME_KEYBINDINGS sprint = JString ''Shift''"
| "DEFAULT_RUNTIME_KEYBINDINGS interact = JString ''KeyE''"
| "DEFAULT_RUNTIME_KEYBINDINGS teleportToBase = JString ''KeyC''"
| "DEFAULT_RUNTIME_KEYBINDINGS quickHeal = JString ''KeyH''"
| "DEFAULT_RUNTIME_KEYBINDINGS dropItem = JString ''KeyG''"
| "DEFAULT_RUNTIME_KEYBINDINGS splitDropItem = JString ''KeyX''"
| "DEFAULT_RUNTIME_KEYBINDINGS weaponsHud = JString ''KeyF''"
| "DEFAULT_RUNTIME_KEYBINDINGS quickSwitchWeapon = JString ''KeyQ''"
| "DEFAULT_RUNTIME_KEYBINDINGS chat = JString ''KeyY''"
| "DEFAULT_RUNTIME_KEYBINDINGS playerList = JString ''Tab''"
| "DEFAULT_RUNTIME_KEYBINDINGS controlsPanel = JString ''KeyI''"

text \<open>\<^verbatim>\<open>Object.keys\<close> of the default mapping: its keys in the order they are written.\<close>

definition REBINDABLE_ACTION_IDS :: "RebindableActionId list" where
  "REBINDABLE_ACTION_IDS =
     [moveUp, moveLeft, moveDown, moveRight, sprint, interact, teleportToBase, quickHeal,
      dropItem, splitDropItem, weaponsHud, quickSwitchWeapon, chat, playerList, controlsPanel]"

definition RESERVED_CODES :: "js_value set" where
  "RESERVED_CODES = set (map JString
     [''Escape'', ''KeyM'',
      ''Digit0'', ''Digit1'', ''Digit2'', ''Digit3'', ''Digit4'',
      ''Digit5'', ''Digit6'', ''Digit7'', ''Digit8'', ''Digit9'',
      ''Numpad0'', ''Numpad1'', ''Numpad2'', ''Numpad3'', ''Numpad4'',
      ''Numpad5'', ''Numpad6'', ''Numpad7'', ''Numpad8'', ''Numpad9''])"

text \<open>The own properties of the object literal \<^verbatim>\<open>CANONICAL_ALIASES\<close>.\<close>

definition CANONICAL_ALIASES :: "(string \<times> js_value) list" where
  "CANONICAL_ALIASES =
     [(''shiftleft'', JString ''Shift''),
      (''shiftright'', JString ''Shift''),
      (''shift'', JString ''Shift''),
      (''controlleft'', JString ''Control''),
      (''controlright'', JString ''Control''),
      (''control'', JString ''Control''),
      (''ctrl'', JString ''Control''),
      (''altleft'', JString ''Alt''),
      (''altright'', JString ''Alt''),
      (''alt'', JString ''Alt''),
      (''metaleft'', JString ''Meta''),
      (''metaright'', JString ''Meta''),
      (''meta'', JString ''Meta''),
      (''cmd'', JString ''Meta''),
      (''command'', JString ''Meta''),
      (''enter'', JString ''Enter''),
      (''tab'', JString ''Tab''),
      (''space'', JString ''Space''),
      ('' '', JString ''Space''),
      (''escape'', JString ''Escape''),
      (''esc'', JString ''Escape'')]"

section \<open>Expansion, normalisation, reservation, conflicts\<close>

fun getBindingEventCodes :: "BindingToken \<Rightarrow> js_value list" where
  "getBindingEventCodes token =
     (if token = JString ''Shift'' then [JString ''ShiftLeft'', JString ''ShiftRight'']
      else if token = JString ''Control'' then [JString ''ControlLeft'', JString ''ControlRight'']
      else if token = JString ''Alt'' then [JString ''AltLeft'', JString ''AltRight'']
      else if token = JString ''Meta'' then [JString ''MetaLeft'', JString ''MetaRight'']
      else [token])"

text \<open>
  The seven regular expressions of \<^verbatim>\<open>normalizeBindingToken\<close>. Each is anchored at both
  ends and matches finitely many strings, which are listed: a fixed prefix followed by one
  character of a class, or one of a list of alternatives.
\<close>

definition prefixed :: "string \<Rightarrow> string \<Rightarrow> string list" where
  "prefixed prefix cls = map (\<lambda>c. prefix @ [c]) cls"

definition matchesKey :: "string \<Rightarrow> bool" where
  "matchesKey raw = (raw \<in> set (prefixed ''Key'' ''ABCDEFGHIJKLMNOPQRSTUVWXYZ''))"

definition matchesDigit :: "string \<Rightarrow> bool" where
  "matchesDigit raw = (raw \<in> set (prefixed ''Digit'' ''0123456789''))"

definition matchesNumpad :: "string \<Rightarrow> bool" where
  "matchesNumpad raw = (raw \<in> set (prefixed ''Numpad'' ''0123456789''))"

definition matchesArrow :: "string \<Rightarrow> bool" where
  "matchesArrow raw = (raw \<in> set [''ArrowUp'', ''ArrowDown'', ''ArrowLeft'', ''ArrowRight''])"

definition matchesNamed :: "string \<Rightarrow> bool" where
  "matchesNamed raw =
     (raw \<in> set [''Enter'', ''Tab'', ''Space'', ''Backspace'', ''Delete'', ''Home'', ''End'',
                 ''PageUp'', ''PageDown'', ''Insert''])"

definition matchesBracket :: "string \<Rightarrow> bool" where
  "matchesBracket raw = (raw \<in> set [''BracketLeft'', ''BracketRight''])"

definition matchesPunctuation :: "string \<Rightarrow> bool" where
  "matchesPunctuation raw =
     (raw \<in> set [''Semicolon'', ''Quote'', ''Comma'', ''Period'', ''Slash'', ''Backslash'',
                 ''Minus'', ''Equal'', ''Backquote''])"

text \<open>
  \<^verbatim>\<open>normalizeBindingToken\<close>, on a string argument (its callers pass nothing else: the
  sanitizer tests \<^verbatim>\<open>typeof raw\<close> first, the key capture passes \<^verbatim>\<open>event.code\<close>). The
  result is \<^verbatim>\<open>null\<close>, the trimmed string, or what the alias table's property read gave.
\<close>

definition normalizeBindingToken :: "string \<Rightarrow> js_value" where
  "normalizeBindingToken token =
     (if token = [] then JNull
      else let raw = trim token in
        if raw = [] then JNull
        else let alias = getProperty CANONICAL_ALIASES (toLowerCase raw) in
          if truthy alias then alias
          else if matchesKey raw then JString raw
          else if matchesDigit raw then JString raw
          else if matchesNumpad raw then JString raw
          else if matchesArrow raw then JString raw
          else if matchesNamed raw then JString raw
          else if matchesBracket raw then JString raw
          else if matchesPunctuation raw then JString raw
          else JNull)"

text \<open>\<^verbatim>\<open>normalizeCapturedKey\<close>, on the \<^verbatim>\<open>code\<close> of the key event.\<close>

definition normalizeCapturedKey :: "string \<Rightarrow> js_value" where
  "normalizeCapturedKey code =
     (if code = [] \<or> code = ''Unidentified'' then JNull else normalizeBindingToken code)"

definition isReservedBinding :: "BindingToken \<Rightarrow> bool" where
  "isReservedBinding token = list_ex (\<lambda>code. code \<in> RESERVED_CODES) (getBindingEventCodes token)"

text \<open>
  \<^verbatim>\<open>findBindingConflict\<close>: the loop over the registry with its \<^verbatim>\<open>continue\<close> and its
  early \<^verbatim>\<open>return\<close>; \<open>None\<close> is the \<^verbatim>\<open>null\<close> after the loop.
\<close>

fun findBindingConflictFrom ::
  "RebindableActionId list \<Rightarrow> RuntimeKeybindings \<Rightarrow> RebindableActionId \<Rightarrow> BindingToken
     \<Rightarrow> RebindableActionId option" where
  "findBindingConflictFrom [] bindings actionId candidate = None"
| "findBindingConflictFrom (i # ids) bindings actionId candidate =
     (if i = actionId then findBindingConflictFrom ids bindings actionId candidate
      else if bindings i = candidate then Some i
      else findBindingConflictFrom ids bindings actionId candidate)"

definition findBindingConflict ::
  "RuntimeKeybindings \<Rightarrow> RebindableActionId \<Rightarrow> BindingToken \<Rightarrow> RebindableActionId option" where
  "findBindingConflict bindings actionId candidate =
     findBindingConflictFrom REBINDABLE_ACTION_IDS bindings actionId candidate"

section \<open>The sanitizer\<close>

text \<open>
  The read \<^verbatim>\<open>record[actionId]\<close>. It is reached only for a value that is truthy and of
  type \<^verbatim>\<open>object\<close>: a plain object, an array, or \<^verbatim>\<open>Object.prototype\<close>. An array
  and \<^verbatim>\<open>Object.prototype\<close> have no property named like an action.
\<close>

fun readField :: "js_value \<Rightarrow> string \<Rightarrow> js_value" where
  "readField (JObject props) key = getProperty props key"
| "readField v key = JUndefined"

text \<open>The first loop of \<^verbatim>\<open>sanitizeBindings\<close>: the set \<^verbatim>\<open>seen\<close> it builds.\<close>

definition seedSeen :: "RuntimeKeybindings \<Rightarrow> BindingToken set" where
  "seedSeen sanitized =
     fold (\<lambda>actionId seen.
             let current = sanitized actionId
             in if \<not> isReservedBinding current then insert current seen else seen)
       REBINDABLE_ACTION_IDS {}"

text \<open>
  One round of the second loop, on the pair of the two variables the loop updates. Every
  \<^verbatim>\<open>continue\<close> returns the pair unchanged.
\<close>

fun sanitizeAction ::
  "js_value \<Rightarrow> RebindableActionId \<Rightarrow> RuntimeKeybindings \<times> BindingToken set
     \<Rightarrow> RuntimeKeybindings \<times> BindingToken set" where
  "sanitizeAction record actionId (sanitized, seen) =
     (case readField record (actionName actionId) of
        JString raw \<Rightarrow>
          (let normalized = normalizeBindingToken raw in
           if falsy normalized then (sanitized, seen)
           else if isReservedBinding normalized then (sanitized, seen)
           else
             let previousDefault = sanitized actionId;
                 nextSeen = seen - {previousDefault}
             in if normalized \<in> nextSeen then (sanitized, seen)
                else (sanitized(actionId := normalized),
                      insert normalized (seen - {previousDefault})))
      | _ \<Rightarrow> (sanitized, seen))"

definition sanitizeBindings :: "js_value \<Rightarrow> RuntimeKeybindings" where
  "sanitizeBindings v =
     (let sanitized = DEFAULT_RUNTIME_KEYBINDINGS
      in if falsy v \<or> typeof v \<noteq> ''object'' then sanitized
         else fst (fold (sanitizeAction v) REBINDABLE_ACTION_IDS (sanitized, seedSeen sanitized)))"

text \<open>
  A mapping is an object with one property per action, in registry order; the cast
  \<^verbatim>\<open>value as Record<string, unknown>\<close> changes nothing at run time. This is the value
  \<^verbatim>\<open>sanitizeBindings\<close> receives when it is handed a mapping.
\<close>

definition bindingsObject :: "RuntimeKeybindings \<Rightarrow> js_value" where
  "bindingsObject bindings = JObject (map (\<lambda>a. (actionName a, bindings a)) REBINDABLE_ACTION_IDS)"

section \<open>Persistence\<close>

text \<open>
  The platform, as far as the module observes it. The storage entry is a string; the module
  tests it for emptiness and hands it to \<^verbatim>\<open>JSON.parse\<close>, so a stored string is modelled by
  what these two observations give: the empty string, a string \<^verbatim>\<open>JSON.parse\<close> throws on,
  or a string it reads as a value. \<^verbatim>\<open>window\<close> may be missing altogether; the storage may
  refuse a read or a write by throwing; the legacy table \<^verbatim>\<open>window.config.keybindings\<close>
  may or may not exist, and when it does it is an ordinary object that accepts the writes,
  as the cast in the source says. \<open>dispatched\<close> counts the change events sent.
\<close>

datatype js_error = TypeError | SyntaxError | StorageError

datatype stored_text = EmptyText | Malformed | JsonText js_value

record window =
  storageReadable :: bool
  storageWritable :: bool
  storedItem :: "stored_text option"
  legacyKeybindings :: bool
  dispatched :: nat

text \<open>
  \<^verbatim>\<open>JSON.stringify\<close> followed by \<^verbatim>\<open>JSON.parse\<close>: \<open>toJSON v\<close> is the value read
  back from the text written for \<open>v\<close>, and \<open>None\<close> when \<^verbatim>\<open>JSON.stringify\<close> writes no
  text for \<open>v\<close> (\<^verbatim>\<open>undefined\<close> and functions). Such a property is left out of an
  object and is \<^verbatim>\<open>null\<close> in an array; \<^verbatim>\<open>Object.prototype\<close> has no enumerable
  property and is written as the empty object.
\<close>

fun toJSON :: "js_value \<Rightarrow> js_value option" where
  "toJSON JUndefined = None"
| "toJSON JNull = Some JNull"
| "toJSON (JBoolean b) = Some (JBoolean b)"
| "toJSON (JNumber n) = Some (JNumber n)"
| "toJSON (JString s) = Some (JString s)"
| "toJSON (JArray xs) =
     Some (JArray (map (\<lambda>x. case toJSON x of None \<Rightarrow> JNull | Some j \<Rightarrow> j) xs))"
| "toJSON (JObject ps) =
     Some (JObject (concat (map (\<lambda>p. case toJSON (snd p) of
                                         None \<Rightarrow> []
                                       | Some j \<Rightarrow> [(fst p, j)]) ps)))"
| "toJSON (JInherited name) = (if name = ''__proto__'' then Some (JObject []) else None)"

text \<open>
  The string \<^verbatim>\<open>setItem\<close> stores for \<^verbatim>\<open>JSON.stringify(v)\<close>. When there is no text, the
  storage holds the word \<^verbatim>\<open>undefined\<close>, which does not parse.
\<close>

definition stringify :: "js_value \<Rightarrow> stored_text" where
  "stringify v = (case toJSON v of None \<Rightarrow> Malformed | Some j \<Rightarrow> JsonText j)"

text \<open>
  \<^verbatim>\<open>toConfigLabel(token)\<close> is \<^verbatim>\<open>formatBindingForDisplay(token).toLowerCase()\<close>. The
  label goes into the legacy table, which nothing modelled here reads, so the model keeps
  only whether the call throws. It throws a \<^verbatim>\<open>TypeError\<close> when \<open>token\<close> is not a string
  (\<^verbatim>\<open>token.match\<close> is not a function), and when it is a string that names an inherited
  property of the table \<^verbatim>\<open>specialLabels\<close>: the three patterns do not match such a name,
  the table read returns the inherited object, and that has no \<^verbatim>\<open>toLowerCase\<close>.
\<close>

definition toConfigLabelThrows :: "js_value \<Rightarrow> bool" where
  "toConfigLabelThrows token =
     (case token of JString s \<Rightarrow> s \<in> set objectPrototypeNames | _ \<Rightarrow> True)"

text \<open>The actions whose labels \<^verbatim>\<open>syncSharedKeybindingDisplayConfig\<close> writes, in its order.\<close>

definition syncedActions :: "RebindableActionId list" where
  "syncedActions =
     [interact, dropItem, quickHeal, sprint, chat, playerList, weaponsHud, quickSwitchWeapon,
      controlsPanel]"

text \<open>\<^verbatim>\<open>syncSharedKeybindingDisplayConfig\<close>: the exception it throws, if any.\<close>

definition syncSharedKeybindingDisplayConfig ::
  "window option \<Rightarrow> RuntimeKeybindings \<Rightarrow> js_error option" where
  "syncSharedKeybindingDisplayConfig w bindings =
     (case w of
        None \<Rightarrow> None
      | Some win \<Rightarrow>
          if legacyKeybindings win = False then None
          else if list_ex (\<lambda>a. toConfigLabelThrows (bindings a)) syncedActions
               then Some TypeError
               else None)"

text \<open>A call of it followed by \<^verbatim>\<open>return bindings\<close>.\<close>

definition syncAndReturn :: "window option \<Rightarrow> RuntimeKeybindings \<Rightarrow> js_error + RuntimeKeybindings" where
  "syncAndReturn w bindings =
     (case syncSharedKeybindingDisplayConfig w bindings of
        Some e \<Rightarrow> Inl e
      | None \<Rightarrow> Inr bindings)"

text \<open>The \<^verbatim>\<open>try\<close> block of \<^verbatim>\<open>loadRuntimeKeybindings\<close>; \<open>Inl\<close> is an exception thrown in it.\<close>

definition loadTry :: "window \<Rightarrow> js_error + RuntimeKeybindings" where
  "loadTry win =
     (if storageReadable win = False then Inl StorageError
      else case storedItem win of
          None \<Rightarrow> syncAndReturn (Some win) DEFAULT_RUNTIME_KEYBINDINGS
        | Some EmptyText \<Rightarrow> syncAndReturn (Some win) DEFAULT_RUNTIME_KEYBINDINGS
        | Some Malformed \<Rightarrow> Inl SyntaxError
        | Some (JsonText parsed) \<Rightarrow> syncAndReturn (Some win) (sanitizeBindings parsed))"

text \<open>
  \<^verbatim>\<open>loadRuntimeKeybindings\<close>. \<open>Inl\<close> is an exception that reaches the caller; the only
  place one could come from is the \<^verbatim>\<open>catch\<close> block.
\<close>

definition loadRuntimeKeybindings :: "window option \<Rightarrow> js_error + RuntimeKeybindings" where
  "loadRuntimeKeybindings w =
     (case w of
        None \<Rightarrow> Inr DEFAULT_RUNTIME_KEYBINDINGS
      | Some win \<Rightarrow>
          (case loadTry win of
             Inr bindings \<Rightarrow> Inr bindings
           | Inl e \<Rightarrow> syncAndReturn (Some win) DEFAULT_RUNTIME_KEYBINDINGS))"

text \<open>
  \<^verbatim>\<open>saveRuntimeKeybindings\<close>: what it returns or throws, and the platform afterwards. A
  refused write is swallowed; the synchronisation of the legacy table is outside the
  \<^verbatim>\<open>try\<close>.
\<close>

definition saveRuntimeKeybindings ::
  "window option \<Rightarrow> RuntimeKeybindings \<Rightarrow> (js_error + RuntimeKeybindings) \<times> window option" where
  "saveRuntimeKeybindings w bindings =
     (let sanitized = sanitizeBindings (bindingsObject bindings)
      in case w of
           None \<Rightarrow> (Inr sanitized, None)
         | Some win \<Rightarrow>
             let written =
                   (if storageWritable win
                    then win\<lparr>storedItem := Some (stringify (bindingsObject sanitized))\<rparr>
                    else win)
             in case syncSharedKeybindingDisplayConfig (Some written) sanitized of
                  Some e \<Rightarrow> (Inl e, Some written)
                | None \<Rightarrow> (Inr sanitized, Some (written\<lparr>dispatched := Suc (dispatched written)\<rparr>)))"

definition resetRuntimeKeybindings ::
  "window option \<Rightarrow> (js_error + RuntimeKeybindings) \<times> window option" where
  "resetRuntimeKeybindings w = saveRuntimeKeybindings w DEFAULT_RUNTIME_KEYBINDINGS"

section \<open>The second loop, seen through the mapping\<close>

text \<open>
  Two notions used to reason about the sanitizer's second loop; the model of the code is
  \<open>sanitizeAction\<close>. \<open>requestedToken\<close> is the token a round would store for an action:
  the checks of the round that do not read the loop's variables. \<open>commitToken\<close> is the
  round's effect on the mapping when the set \<^verbatim>\<open>seen\<close> is the set of the mapping's
  values. Lemma \<open>sanitize_fold\<close> below shows that the loop computes the fold of
  \<open>commitToken\<close>.
\<close>

definition requestedToken :: "js_value \<Rightarrow> RebindableActionId \<Rightarrow> BindingToken option" where
  "requestedToken record actionId =
     (case readField record (actionName actionId) of
        JString raw \<Rightarrow>
          (let normalized = normalizeBindingToken raw
           in if falsy normalized \<or> isReservedBinding normalized then None else Some normalized)
      | _ \<Rightarrow> None)"

definition commitToken ::
  "js_value \<Rightarrow> RebindableActionId \<Rightarrow> RuntimeKeybindings \<Rightarrow> RuntimeKeybindings" where
  "commitToken record actionId cur =
     (case requestedToken record actionId of
        None \<Rightarrow> cur
      | Some n \<Rightarrow> if n \<in> cur ` (UNIV - {actionId}) then cur else cur(actionId := n))"

section \<open>Concrete inputs\<close>

text \<open>
  A browser window whose storage can be read and written, with nothing stored yet and
  without the legacy table; and the text a storage entry holds when it was written as
  \<^verbatim>\<open>{"moveUp":"constructor"}\<close>.
\<close>

definition freshWindow :: window where
  "freshWindow =
     \<lparr>storageReadable = True, storageWritable = True, storedItem = None,
      legacyKeybindings = False, dispatched = 0\<rparr>"

definition inheritedRequest :: js_value where
  "inheritedRequest = JObject [(''moveUp'', JString ''constructor'')]"

definition duplicateRequest :: js_value where
  "duplicateRequest = JObject [(''moveUp'', JString ''KeyD''), (''moveRight'', JString ''KeyD'')]"

definition contestedRequest :: js_value where
  "contestedRequest = JObject [(''moveUp'', JString ''KeyZ''), (''moveLeft'', JString ''KeyZ'')]"

text \<open>
  A mapping of strings that asks for the key \<^verbatim>\<open>constructor\<close>; a window whose storage
  holds \<open>inheritedRequest\<close>; a window with the legacy table whose storage holds
  \<^verbatim>\<open>{"interact":"constructor"}\<close>.
\<close>

definition inheritedBindings :: RuntimeKeybindings where
  "inheritedBindings = DEFAULT_RUNTIME_KEYBINDINGS(moveUp := JString ''constructor'')"

definition inheritedStored :: window where
  "inheritedStored = freshWindow\<lparr>storedItem := Some (JsonText inheritedRequest)\<rparr>"

definition legacyStored :: window where
  "legacyStored =
     freshWindow\<lparr>storedItem := Some (JsonText (JObject [(''interact'', JString ''constructor'')])),
                 legacyKeybindings := True\<rparr>"

section \<open>The registry\<close>

lemma registry_complete: "set REBINDABLE_ACTION_IDS = UNIV"
proof -
  have "a \<in> set REBINDABLE_ACTION_IDS" for a
    by (cases a) (simp_all add: REBINDABLE_ACTION_IDS_def)
  then show ?thesis by auto
qed

lemma registry_distinct: "distinct REBINDABLE_ACTION_IDS"
  by (simp add: REBINDABLE_ACTION_IDS_def)

text \<open>Two mappings that agree on the registry are equal.\<close>

lemma bindings_eqI:
  assumes "map f REBINDABLE_ACTION_IDS = map g REBINDABLE_ACTION_IDS"
  shows "f = g"
proof
  fix a :: RebindableActionId
  have "a \<in> set REBINDABLE_ACTION_IDS" by (simp add: registry_complete)
  with assms show "f a = g a" by (simp only: map_eq_conv)
qed

section \<open>Trimming and lower-casing\<close>

lemma trim_idem: "trim (trim s) = trim s"
proof -
  define a where "a = dropWhile isWhiteSpace s"
  define b where "b = dropWhile isWhiteSpace (rev a)"
  have keep: "dropWhile isWhiteSpace (rev b) = rev b"
  proof (cases "b = []")
    case True
    then show ?thesis by simp
  next
    case False
    obtain pre where pre: "rev a = pre @ b"
      unfolding b_def by (metis takeWhile_dropWhile_id)
    from False pre have "last b = hd a"
      by (metis hd_rev last_appendR rev_rev_ident)
    moreover from False pre have "a \<noteq> []" by auto
    then have "\<not> isWhiteSpace (hd a)"
      unfolding a_def by (rule hd_dropWhile)
    ultimately have "\<not> isWhiteSpace (hd (rev b))"
      using False by (simp add: hd_rev)
    with False show ?thesis
      by (cases "rev b") auto
  qed
  have "dropWhile isWhiteSpace b = b"
    unfolding b_def by (rule dropWhile_idem)
  with keep show ?thesis
    by (simp add: trim_def a_def [symmetric] b_def [symmetric])
qed

lemma lowerChar_whitespace: "isWhiteSpace (lowerChar c) = isWhiteSpace c"
  by (auto simp: isWhiteSpace_def lowerChar_def Let_def)



section \<open>The normaliser\<close>

lemma normalize_trim: "normalizeBindingToken (trim s) = normalizeBindingToken s"
proof (cases "trim s = []")
  case True
  then show ?thesis by (simp add: normalizeBindingToken_def)
next
  case False
  then have "s \<noteq> []" by (auto simp: trim_def)
  with False show ?thesis
    by (simp add: normalizeBindingToken_def trim_idem)
qed

text \<open>The key the alias table is read with is never the single space.\<close>

lemma space_alias_unreachable: "toLowerCase (trim s) \<noteq> '' ''"
proof
  assume eq: "toLowerCase (trim s) = '' ''"
  then obtain c where c: "trim s = [c]" and low: "lowerChar c = CHR '' ''"
    by (cases "trim s") (auto simp: toLowerCase_def)
  have "isWhiteSpace (lowerChar c)"
    unfolding low by (simp add: isWhiteSpace_def)
  then have "isWhiteSpace c" by (simp only: lowerChar_whitespace)
  then have "trim [c] = []" by (simp add: trim_def)
  with trim_idem [of s] c show False by simp
qed

text \<open>The strings the alias table holds.\<close>

lemma alias_values:
  assumes "getProperty CANONICAL_ALIASES key = JString t"
  shows "t \<in> set [''Shift'', ''Control'', ''Alt'', ''Meta'', ''Enter'', ''Tab'', ''Space'',
                  ''Escape'']"
  using assms
  by (simp add: getProperty_def CANONICAL_ALIASES_def split: if_splits)

lemma alias_targets_fixed:
  assumes "t \<in> set [''Shift'', ''Control'', ''Alt'', ''Meta'', ''Enter'', ''Tab'', ''Space'',
                    ''Escape'']"
  shows "normalizeBindingToken t = JString t"
proof -
  have "normalizeBindingToken ''Shift'' = JString ''Shift''" by code_simp
  moreover have "normalizeBindingToken ''Control'' = JString ''Control''" by code_simp
  moreover have "normalizeBindingToken ''Alt'' = JString ''Alt''" by code_simp
  moreover have "normalizeBindingToken ''Meta'' = JString ''Meta''" by code_simp
  moreover have "normalizeBindingToken ''Enter'' = JString ''Enter''" by code_simp
  moreover have "normalizeBindingToken ''Tab'' = JString ''Tab''" by code_simp
  moreover have "normalizeBindingToken ''Space'' = JString ''Space''" by code_simp
  moreover have "normalizeBindingToken ''Escape'' = JString ''Escape''" by code_simp
  ultimately show ?thesis
    using assms by auto
qed

text \<open>
  A string result is an alias target or the trimmed input, and in the second case one of
  the seven patterns matched it.
\<close>

lemma normalize_string_shape:
  assumes "normalizeBindingToken s = JString t"
  shows "t \<in> set [''Shift'', ''Control'', ''Alt'', ''Meta'', ''Enter'', ''Tab'', ''Space'',
                  ''Escape'']
         \<or> t = trim s \<and> (matchesKey t \<or> matchesDigit t \<or> matchesNumpad t \<or> matchesArrow t
                          \<or> matchesNamed t \<or> matchesBracket t \<or> matchesPunctuation t)"
proof (cases "truthy (getProperty CANONICAL_ALIASES (toLowerCase (trim s)))")
  case True
  with assms have "getProperty CANONICAL_ALIASES (toLowerCase (trim s)) = JString t"
    by (simp add: normalizeBindingToken_def Let_def split: if_splits)
  then show ?thesis using alias_values by blast
next
  case False
  with assms show ?thesis
    by (auto simp: normalizeBindingToken_def Let_def split: if_splits)
qed

lemma normalize_string_fixed:
  assumes "normalizeBindingToken s = JString t"
  shows "normalizeBindingToken t = JString t"
  using normalize_string_shape [OF assms] assms
  by (auto simp: alias_targets_fixed normalize_trim simp del: set_simps)








section \<open>The conflict check is a search for the first match\<close>

lemma conflict_find:
  "findBindingConflictFrom ids bindings a c = List.find (\<lambda>i. i \<noteq> a \<and> bindings i = c) ids"
  by (induction ids) auto


lemma load_result_eqI:
  assumes "case r of
             Inr b \<Rightarrow> map b REBINDABLE_ACTION_IDS = map g REBINDABLE_ACTION_IDS
           | Inl e \<Rightarrow> False"
  shows "r = Inr g"
proof (cases r)
  case (Inl e)
  with assms show ?thesis by simp
next
  case (Inr b)
  with assms have "map b REBINDABLE_ACTION_IDS = map g REBINDABLE_ACTION_IDS" by simp
  then have "b = g" by (rule bindings_eqI)
  with Inr show ?thesis by simp
qed

section \<open>The sanitizer's loop\<close>

text \<open>
  Throughout the second loop the mapping is injective and \<^verbatim>\<open>seen\<close> is the set of its
  values, so a round is \<open>commitToken\<close>.
\<close>

lemma range_minus_own:
  assumes "inj cur"
  shows "range cur - {cur a} = cur ` (UNIV - {a})"
  using assms by (auto simp: inj_def)

lemma commit_inj:
  assumes "inj cur"
  shows "inj (commitToken record a cur)"
proof (cases "requestedToken record a")
  case None
  with assms show ?thesis by (simp add: commitToken_def)
next
  case (Some n)
  show ?thesis
  proof (cases "n \<in> cur ` (UNIV - {a})")
    case True
    with Some assms show ?thesis by (simp add: commitToken_def)
  next
    case False
    have "inj (cur(a := n))"
    proof (rule injI)
      fix x y assume eq: "(cur(a := n)) x = (cur(a := n)) y"
      show "x = y"
      proof (cases "x = a"; cases "y = a")
        assume "x = a" "y = a" then show ?thesis by simp
      next
        assume "x = a" "y \<noteq> a"
        with eq have "n = cur y" by simp
        with \<open>y \<noteq> a\<close> False show ?thesis by blast
      next
        assume "x \<noteq> a" "y = a"
        with eq have "n = cur x" by simp
        with \<open>x \<noteq> a\<close> False show ?thesis by blast
      next
        assume "x \<noteq> a" "y \<noteq> a"
        with eq have "cur x = cur y" by simp
        with assms show ?thesis by (simp add: inj_def)
      qed
    qed
    with Some False show ?thesis by (simp add: commitToken_def)
  qed
qed

lemma range_update:
  assumes "inj cur"
  shows "range (cur(a := n)) = insert n (range cur - {cur a})"
proof -
  have "range (cur(a := n)) = insert n (cur ` (UNIV - {a}))"
    by auto
  with range_minus_own [OF assms] show ?thesis by simp
qed

lemma sanitizeAction_request:
  "sanitizeAction record a (cur, seen) =
     (case requestedToken record a of
        None \<Rightarrow> (cur, seen)
      | Some n \<Rightarrow>
          if n \<in> seen - {cur a} then (cur, seen)
          else (cur(a := n), insert n (seen - {cur a})))"
  by (auto simp: requestedToken_def Let_def split: js_value.splits)

lemma step_commit:
  assumes "inj cur"
  shows "sanitizeAction record a (cur, range cur)
           = (commitToken record a cur, range (commitToken record a cur))"
proof (cases "requestedToken record a")
  case None
  then show ?thesis
    by (simp only: sanitizeAction_request commitToken_def option.case)
next
  case (Some n)
  show ?thesis
  proof (cases "n \<in> cur ` (UNIV - {a})")
    case True
    then have "n \<in> range cur - {cur a}"
      by (simp only: range_minus_own [OF assms])
    with True Some show ?thesis
      by (simp only: sanitizeAction_request commitToken_def option.case if_True)
  next
    case False
    then have "n \<notin> range cur - {cur a}"
      by (simp only: range_minus_own [OF assms] not_False_eq_True)
    with False Some show ?thesis
      by (simp only: sanitizeAction_request commitToken_def option.case if_False
          range_update [OF assms])
  qed
qed

lemma fold_commit:
  assumes "inj cur"
  shows "fold (sanitizeAction record) ids (cur, range cur)
           = (fold (commitToken record) ids cur, range (fold (commitToken record) ids cur))
         \<and> inj (fold (commitToken record) ids cur)"
  using assms
proof (induction ids arbitrary: cur)
  case Nil
  then show ?case by simp
next
  case (Cons a ids)
  from Cons.prems have "inj (commitToken record a cur)" by (rule commit_inj)
  from Cons.IH [OF this] step_commit [OF Cons.prems] show ?case by simp
qed

lemma default_inj: "inj DEFAULT_RUNTIME_KEYBINDINGS"
proof (rule injI)
  fix x y assume "DEFAULT_RUNTIME_KEYBINDINGS x = DEFAULT_RUNTIME_KEYBINDINGS y"
  then show "x = y" by (cases x; cases y) simp_all
qed

lemma default_range: "range DEFAULT_RUNTIME_KEYBINDINGS = set (map DEFAULT_RUNTIME_KEYBINDINGS REBINDABLE_ACTION_IDS)"
  by (simp only: set_map registry_complete)

lemma seed_default: "seedSeen DEFAULT_RUNTIME_KEYBINDINGS = range DEFAULT_RUNTIME_KEYBINDINGS"
  unfolding default_range by code_simp

lemma sanitize_fold:
  "sanitizeBindings v =
     (if falsy v \<or> typeof v \<noteq> ''object'' then DEFAULT_RUNTIME_KEYBINDINGS
      else fold (commitToken v) REBINDABLE_ACTION_IDS DEFAULT_RUNTIME_KEYBINDINGS)"
  using fold_commit [OF default_inj, of v REBINDABLE_ACTION_IDS]
  by (simp add: sanitizeBindings_def seed_default)

lemma sanitize_inj: "inj (sanitizeBindings v)"
  using fold_commit [OF default_inj, of v REBINDABLE_ACTION_IDS]
  by (simp add: sanitize_fold default_inj)

text \<open>
  What the sanitizer can store: a default, or a token requested for some action. A
  requested token is not reserved, and is either a string the normaliser fixes or an
  inherited member of the alias table.
\<close>

lemma alias_own_string:
  assumes "map_of CANONICAL_ALIASES key = Some v"
  shows "\<exists>t. v = JString t"
  using assms by (auto simp: CANONICAL_ALIASES_def split: if_splits)

lemma alias_lookup_shape:
  "(\<exists>t. getProperty CANONICAL_ALIASES key = JString t)
   \<or> getProperty CANONICAL_ALIASES key = JUndefined
   \<or> getProperty CANONICAL_ALIASES key = JInherited key \<and> key \<in> set objectPrototypeNames"
proof (cases "map_of CANONICAL_ALIASES key")
  case None
  then show ?thesis by (simp add: getProperty_def)
next
  case (Some v)
  with alias_own_string [OF Some] show ?thesis by (auto simp: getProperty_def)
qed

lemma normalize_result:
  "normalizeBindingToken s = JNull
   \<or> (\<exists>t. normalizeBindingToken s = JString t)
   \<or> normalizeBindingToken s = JInherited (toLowerCase (trim s))
      \<and> toLowerCase (trim s) \<in> set objectPrototypeNames"
  using alias_lookup_shape [of "toLowerCase (trim s)"]
  by (auto simp: normalizeBindingToken_def Let_def)

lemma requested_shape:
  assumes "requestedToken record a = Some n"
  shows "\<not> isReservedBinding n"
    and "(\<exists>t. n = JString t \<and> normalizeBindingToken t = JString t)
         \<or> (\<exists>raw. readField record (actionName a) = JString raw
                \<and> n = JInherited (toLowerCase (trim raw))
                \<and> toLowerCase (trim raw) \<in> set objectPrototypeNames)"
proof -
  from assms obtain raw where raw: "readField record (actionName a) = JString raw"
    and n: "normalizeBindingToken raw = n" "\<not> falsy n" "\<not> isReservedBinding n"
    by (auto simp: requestedToken_def Let_def split: js_value.splits if_splits)
  from n show "\<not> isReservedBinding n" by simp
  from normalize_result [of raw] n raw
  show "(\<exists>t. n = JString t \<and> normalizeBindingToken t = JString t)
         \<or> (\<exists>raw. readField record (actionName a) = JString raw
                \<and> n = JInherited (toLowerCase (trim raw))
                \<and> toLowerCase (trim raw) \<in> set objectPrototypeNames)"
    using normalize_string_fixed [of raw] by auto
qed

lemma commit_cases:
  "commitToken record a cur b = cur b
   \<or> b = a \<and> requestedToken record a = Some (commitToken record a cur b)"
  by (auto simp: commitToken_def split: option.splits)

lemma fold_commit_cases:
  "fold (commitToken record) ids cur b = cur b
   \<or> (\<exists>a. requestedToken record a = Some (fold (commitToken record) ids cur b))"
proof (induction ids arbitrary: cur)
  case Nil
  then show ?case by simp
next
  case (Cons a ids)
  have "fold (commitToken record) (a # ids) cur b
          = fold (commitToken record) ids (commitToken record a cur) b"
    by simp
  with Cons.IH [of "commitToken record a cur"] commit_cases [of _ a cur b]
  show ?case by metis
qed

lemma sanitize_cases:
  "sanitizeBindings v b = DEFAULT_RUNTIME_KEYBINDINGS b
   \<or> (\<exists>a. requestedToken v a = Some (sanitizeBindings v b))"
  using fold_commit_cases [of v REBINDABLE_ACTION_IDS DEFAULT_RUNTIME_KEYBINDINGS b]
  by (simp add: sanitize_fold)

lemma default_not_reserved: "\<not> isReservedBinding (DEFAULT_RUNTIME_KEYBINDINGS a)"
  by (cases a) (simp_all add: isReservedBinding_def RESERVED_CODES_def)

lemma default_canonical:
  "\<exists>t. DEFAULT_RUNTIME_KEYBINDINGS a = JString t \<and> normalizeBindingToken t = JString t"
proof -
  have "list_all (\<lambda>a. case DEFAULT_RUNTIME_KEYBINDINGS a of
                         JString t \<Rightarrow> normalizeBindingToken t = JString t
                       | _ \<Rightarrow> False) REBINDABLE_ACTION_IDS"
    by code_simp
  then have "case DEFAULT_RUNTIME_KEYBINDINGS a of
               JString t \<Rightarrow> normalizeBindingToken t = JString t | _ \<Rightarrow> False"
    by (simp add: list_all_iff registry_complete)
  then show ?thesis by (auto split: js_value.splits)
qed

lemma sanitize_not_reserved: "\<not> isReservedBinding (sanitizeBindings v a)"
  using sanitize_cases [of v a] default_not_reserved [of a] requested_shape(1)
  by auto

lemma sanitize_shape:
  "(\<exists>t. sanitizeBindings v a = JString t \<and> normalizeBindingToken t = JString t)
   \<or> (\<exists>k. sanitizeBindings v a = JInherited k \<and> k \<in> set objectPrototypeNames)"
  using sanitize_cases [of v a] default_canonical [of a] requested_shape(2)
  by (metis (no_types, lifting))

text \<open>
  On a mapping of strings that the sanitizer itself returned, a second pass changes nothing.
\<close>

lemma commit_other:
  assumes "b \<noteq> a"
  shows "commitToken v a cur b = cur b"
  using assms by (simp add: commitToken_def split: option.splits)

lemma fold_commit_other:
  assumes "b \<notin> set ids"
  shows "fold (commitToken v) ids cur b = cur b"
  using assms
proof (induction ids arbitrary: cur)
  case Nil
  then show ?case by simp
next
  case (Cons a ids)
  then have "b \<noteq> a" "b \<notin> set ids" by auto
  with Cons.IH [of "commitToken v a cur"] show ?case
    by (simp add: commit_other)
qed

lemma refold:
  assumes "fold (commitToken v) ids cur = s"
    and "distinct ids"
    and "\<forall>a \<in> set ids. requestedToken v' a = Some (s a)"
  shows "fold (commitToken v') ids cur = s"
  using assms
proof (induction ids arbitrary: cur)
  case Nil
  then show ?case by simp
next
  case (Cons a ids)
  define c1 where "c1 = commitToken v a cur"
  from Cons.prems(1) have run: "fold (commitToken v) ids c1 = s"
    by (simp add: c1_def)
  from Cons.prems(2) have "a \<notin> set ids" "distinct ids" by auto
  with run have sa: "s a = c1 a"
    using fold_commit_other [of a ids v c1] by simp
  from Cons.prems(3) have req: "requestedToken v' a = Some (s a)" by simp
  have same: "commitToken v' a cur = c1"
  proof (cases "requestedToken v a")
    case None
    then have "c1 = cur" by (simp add: c1_def commitToken_def)
    with sa req show ?thesis by (auto simp: commitToken_def)
  next
    case (Some n)
    show ?thesis
    proof (cases "n \<in> cur ` (UNIV - {a})")
      case True
      with Some have "c1 = cur" by (simp add: c1_def commitToken_def)
      with sa req show ?thesis by (auto simp: commitToken_def)
    next
      case False
      with Some have c1: "c1 = cur(a := n)" by (simp add: c1_def commitToken_def)
      with sa have "s a = n" by simp
      with req False c1 show ?thesis by (simp add: commitToken_def)
    qed
  qed
  from Cons.prems(3) have "\<forall>a \<in> set ids. requestedToken v' a = Some (s a)" by simp
  from Cons.IH [OF run \<open>distinct ids\<close> this] same show ?case by simp
qed

lemma bindingsObject_field: "readField (bindingsObject m) (actionName a) = m a"
  by (cases a) (simp_all add: bindingsObject_def REBINDABLE_ACTION_IDS_def getProperty_def)

lemma requested_of_canonical:
  assumes "m a = JString t" and "normalizeBindingToken t = JString t"
    and "\<not> isReservedBinding (m a)"
  shows "requestedToken (bindingsObject m) a = Some (m a)"
proof -
  from assms(2) have "t \<noteq> []" by (auto simp: normalizeBindingToken_def)
  with assms show ?thesis
    by (simp add: requestedToken_def bindingsObject_field)
qed

lemma bindingsObject_object:
  "falsy (bindingsObject m) = False" "typeof (bindingsObject m) = ''object''"
  by (simp_all add: bindingsObject_def)

lemma sanitize_default_object:
  "sanitizeBindings (bindingsObject DEFAULT_RUNTIME_KEYBINDINGS) = DEFAULT_RUNTIME_KEYBINDINGS"
  by (rule bindings_eqI) code_simp

lemma sanitize_idempotent_strings:
  assumes "\<forall>a. \<exists>t. sanitizeBindings v a = JString t"
  shows "sanitizeBindings (bindingsObject (sanitizeBindings v)) = sanitizeBindings v"
proof (cases "falsy v \<or> typeof v \<noteq> ''object''")
  case True
  then have "sanitizeBindings v = DEFAULT_RUNTIME_KEYBINDINGS"
    by (simp add: sanitizeBindings_def)
  then show ?thesis by (simp add: sanitize_default_object)
next
  case False
  define s where "s = sanitizeBindings v"
  from False have run: "fold (commitToken v) REBINDABLE_ACTION_IDS DEFAULT_RUNTIME_KEYBINDINGS = s"
    by (simp add: s_def sanitize_fold)
  have "requestedToken (bindingsObject s) a = Some (s a)" for a
  proof -
    from assms obtain t where t: "s a = JString t" unfolding s_def by blast
    with sanitize_shape [of v a] have "normalizeBindingToken t = JString t"
      unfolding s_def by auto
    moreover have "\<not> isReservedBinding (s a)"
      unfolding s_def by (rule sanitize_not_reserved)
    ultimately show ?thesis using t by (intro requested_of_canonical)
  qed
  then have "\<forall>a \<in> set REBINDABLE_ACTION_IDS. requestedToken (bindingsObject s) a = Some (s a)"
    by simp
  from refold [OF run registry_distinct this]
  have "sanitizeBindings (bindingsObject s) = s"
    by (simp add: sanitize_fold bindingsObject_object)
  then show ?thesis by (simp only: s_def)
qed

text \<open>
  A lower-cased key never names an inherited property other than \<^verbatim>\<open>constructor\<close> and
  \<^verbatim>\<open>__proto__\<close>: every other name has a capital letter. So an input in which no string
  field, trimmed and lower-cased, is one of these two words is sanitized to a mapping of
  strings that the normaliser fixes.
\<close>

lemma lowerChar_not_upper: "of_char (lowerChar c) \<notin> {65..90 :: nat}"
  by (auto simp: lowerChar_def Let_def)

lemma lowered_no_upper:
  assumes "c \<in> set (toLowerCase s)"
  shows "of_char c \<notin> {65..90 :: nat}"
  using assms lowerChar_not_upper by (auto simp: toLowerCase_def)

lemma lowered_prototype_name:
  assumes "toLowerCase s \<in> set objectPrototypeNames"
  shows "toLowerCase s = ''constructor'' \<or> toLowerCase s = ''__proto__''"
proof -
  have upper: "toLowerCase s \<noteq> k" if "c \<in> set k" "of_char c \<in> {65..90 :: nat}" for k c
    using that lowered_no_upper [of c s] by auto
  have "toLowerCase s \<noteq> ''__defineGetter__''" by (rule upper [of "CHR ''G''"]) simp_all
  moreover have "toLowerCase s \<noteq> ''__defineSetter__''" by (rule upper [of "CHR ''S''"]) simp_all
  moreover have "toLowerCase s \<noteq> ''hasOwnProperty''" by (rule upper [of "CHR ''O''"]) simp_all
  moreover have "toLowerCase s \<noteq> ''__lookupGetter__''" by (rule upper [of "CHR ''G''"]) simp_all
  moreover have "toLowerCase s \<noteq> ''__lookupSetter__''" by (rule upper [of "CHR ''S''"]) simp_all
  moreover have "toLowerCase s \<noteq> ''isPrototypeOf''" by (rule upper [of "CHR ''P''"]) simp_all
  moreover have "toLowerCase s \<noteq> ''propertyIsEnumerable''" by (rule upper [of "CHR ''I''"]) simp_all
  moreover have "toLowerCase s \<noteq> ''toString''" by (rule upper [of "CHR ''S''"]) simp_all
  moreover have "toLowerCase s \<noteq> ''valueOf''" by (rule upper [of "CHR ''O''"]) simp_all
  moreover have "toLowerCase s \<noteq> ''toLocaleString''" by (rule upper [of "CHR ''L''"]) simp_all
  ultimately show ?thesis
    using assms by (simp add: objectPrototypeNames_def)
qed

lemma sanitize_strings:
  assumes "\<And>a raw. readField v (actionName a) = JString raw \<Longrightarrow>
             toLowerCase (trim raw) \<noteq> ''constructor'' \<and> toLowerCase (trim raw) \<noteq> ''__proto__''"
  shows "\<exists>t. sanitizeBindings v b = JString t \<and> normalizeBindingToken t = JString t"
proof -
  from sanitize_cases [of v b] consider
    "sanitizeBindings v b = DEFAULT_RUNTIME_KEYBINDINGS b"
    | a where "requestedToken v a = Some (sanitizeBindings v b)" by blast
  then show ?thesis
  proof cases
    case 1
    with default_canonical [of b] show ?thesis by simp
  next
    case 2
    from requested_shape(2) [OF 2] show ?thesis
    proof
      assume "\<exists>t. sanitizeBindings v b = JString t \<and> normalizeBindingToken t = JString t"
      then show ?thesis .
    next
      assume "\<exists>raw. readField v (actionName a) = JString raw
                \<and> sanitizeBindings v b = JInherited (toLowerCase (trim raw))
                \<and> toLowerCase (trim raw) \<in> set objectPrototypeNames"
      then obtain raw where raw: "readField v (actionName a) = JString raw"
        and "toLowerCase (trim raw) \<in> set objectPrototypeNames" by blast
      with lowered_prototype_name [of "trim raw"] assms [OF raw] show ?thesis by blast
    qed
  qed
qed

lemma canonical_not_prototype_name:
  assumes "normalizeBindingToken t = JString t"
  shows "t \<notin> set objectPrototypeNames"
proof -
  have "list_all (\<lambda>p. normalizeBindingToken p \<noteq> JString p) objectPrototypeNames"
    by code_simp
  with assms show ?thesis by (auto simp: list_all_iff)
qed

lemma sync_strings:
  assumes "\<forall>a. \<exists>t. bindings a = JString t \<and> normalizeBindingToken t = JString t"
  shows "syncSharedKeybindingDisplayConfig w bindings = None"
proof -
  have "\<not> toConfigLabelThrows (bindings a)" for a
  proof -
    from assms obtain t where "bindings a = JString t" "normalizeBindingToken t = JString t"
      by blast
    with canonical_not_prototype_name [of t] show ?thesis
      by (simp add: toConfigLabelThrows_def)
  qed
  then show ?thesis
    by (simp add: syncSharedKeybindingDisplayConfig_def list_ex_iff split: option.splits)
qed

lemma sync_default: "syncSharedKeybindingDisplayConfig w DEFAULT_RUNTIME_KEYBINDINGS = None"
  using default_canonical by (intro sync_strings) blast

lemma load_total: "\<exists>bindings. loadRuntimeKeybindings w = Inr bindings"
  by (cases w; cases "loadTry (the w)")
     (simp_all add: loadRuntimeKeybindings_def syncAndReturn_def sync_default)

lemma load_fallback:
  assumes "w = None \<or> (\<exists>win. w = Some win \<and>
             (storageReadable win = False \<or> storedItem win = None
              \<or> storedItem win = Some EmptyText \<or> storedItem win = Some Malformed))"
  shows "loadRuntimeKeybindings w = Inr DEFAULT_RUNTIME_KEYBINDINGS"
  using assms
  by (auto simp: loadRuntimeKeybindings_def loadTry_def syncAndReturn_def sync_default)

lemma toJSON_strings:
  assumes "\<forall>p \<in> set ps. \<exists>t. snd p = JString t"
  shows "toJSON (JObject ps) = Some (JObject ps)"
proof -
  from assms
  have "concat (map (\<lambda>p. case toJSON (snd p) of None \<Rightarrow> [] | Some j \<Rightarrow> [(fst p, j)]) ps) = ps"
    by (induction ps) auto
  then show ?thesis by simp
qed

lemma stringify_strings:
  assumes "\<forall>a. \<exists>t. m a = JString t"
  shows "stringify (bindingsObject m) = JsonText (bindingsObject m)"
proof -
  from assms have "\<forall>p \<in> set (map (\<lambda>a. (actionName a, m a)) REBINDABLE_ACTION_IDS).
                     \<exists>t. snd p = JString t"
    by auto
  then have "toJSON (bindingsObject m) = Some (bindingsObject m)"
    unfolding bindingsObject_def by (rule toJSON_strings)
  then show ?thesis by (simp add: stringify_def)
qed

lemma round_trip_strings:
  assumes "storageReadable win" and "storageWritable win"
    and "\<forall>a. \<exists>t. sanitizeBindings (bindingsObject m) a = JString t"
  shows "fst (saveRuntimeKeybindings (Some win) m) = Inr (sanitizeBindings (bindingsObject m))"
    and "loadRuntimeKeybindings (snd (saveRuntimeKeybindings (Some win) m))
           = Inr (sanitizeBindings (bindingsObject m))"
proof -
  define s where "s = sanitizeBindings (bindingsObject m)"
  have canon: "\<forall>a. \<exists>t. s a = JString t \<and> normalizeBindingToken t = JString t"
  proof
    fix a
    from assms(3) obtain t where "s a = JString t" unfolding s_def by blast
    with sanitize_shape [of "bindingsObject m" a] show
      "\<exists>t. s a = JString t \<and> normalizeBindingToken t = JString t"
      unfolding s_def by auto
  qed
  then have sync: "syncSharedKeybindingDisplayConfig w s = None" for w
    by (rule sync_strings)
  from assms(3) have written: "stringify (bindingsObject s) = JsonText (bindingsObject s)"
    unfolding s_def by (rule stringify_strings)
  from assms(3) have idem: "sanitizeBindings (bindingsObject s) = s"
    unfolding s_def by (rule sanitize_idempotent_strings)
  from assms(2) sync
  have saved: "saveRuntimeKeybindings (Some win) m =
      (Inr s, Some (win\<lparr>storedItem := Some (JsonText (bindingsObject s)),
                        dispatched := Suc (dispatched win)\<rparr>))"
    by (simp add: saveRuntimeKeybindings_def Let_def s_def [symmetric] written)
  then show "fst (saveRuntimeKeybindings (Some win) m) = Inr (sanitizeBindings (bindingsObject m))"
    by (simp add: s_def)
  from saved assms(1) sync idem
  show "loadRuntimeKeybindings (snd (saveRuntimeKeybindings (Some win) m))
           = Inr (sanitizeBindings (bindingsObject m))"
    by (simp add: loadRuntimeKeybindings_def loadTry_def syncAndReturn_def s_def [symmetric])
qed

text \<open>Resetting and then loading gives the default mapping.\<close>

lemma reset_then_load:
  assumes "storageReadable win" and "storageWritable win"
  shows "loadRuntimeKeybindings (snd (resetRuntimeKeybindings (Some win)))
           = Inr DEFAULT_RUNTIME_KEYBINDINGS"
proof -
  have "\<forall>a. \<exists>t. sanitizeBindings (bindingsObject DEFAULT_RUNTIME_KEYBINDINGS) a = JString t"
    using default_canonical by (simp add: sanitize_default_object) blast
  from round_trip_strings(2) [OF assms this] show ?thesis
    by (simp add: resetRuntimeKeybindings_def sanitize_default_object)
qed

text \<open>A press of either physical Shift key is captured as the token \<^verbatim>\<open>Shift\<close>.\<close>

lemma captured_shift:
  "normalizeCapturedKey ''ShiftLeft'' = JString ''Shift''"
  "normalizeCapturedKey ''ShiftRight'' = JString ''Shift''"
  "normalizeCapturedKey ''Unidentified'' = JNull"
  by code_simp+

text \<open>
  The conflict check compares tokens: given the physical code \<^verbatim>\<open>ShiftLeft\<close> itself,
  which the normaliser never returns, it finds no conflict with the action that holds
  \<^verbatim>\<open>Shift\<close>.
\<close>

lemma conflict_compares_tokens:
  "findBindingConflict DEFAULT_RUNTIME_KEYBINDINGS interact (JString ''ShiftLeft'') = None"
  by (simp add: findBindingConflict_def REBINDABLE_ACTION_IDS_def)

section \<open>The normaliser: claims C5, C6 and C10\<close>

text \<open>
  Claim C5: the normaliser applied to the string that is one space returns the token
  \<^verbatim>\<open>Space\<close>, since the alias table maps the space to it.

  The alias table does hold that entry, but the normaliser trims its input before it reads
  the table: the space becomes the empty string and is rejected. The result is
  \<^verbatim>\<open>null\<close>, and no input reaches the entry (lemma \<open>space_alias_unreachable\<close>).
\<close>

theorem normalize_space_rejected:
  "normalizeBindingToken '' '' = JNull
   \<and> map_of CANONICAL_ALIASES '' '' = Some (JString ''Space'')
   \<and> trim '' '' = []"
  by code_simp





section \<open>Reservation and conflicts: claims C7 and C8\<close>

text \<open>
  Claim C7: a token is reserved if and only if some code of its expansion is in the reserved
  set; the reserved set is \<^verbatim>\<open>Escape\<close>, the ten \<^verbatim>\<open>Digit0\<close> to \<^verbatim>\<open>Digit9\<close>, the ten
  \<^verbatim>\<open>Numpad0\<close> to \<^verbatim>\<open>Numpad9\<close> and \<^verbatim>\<open>KeyM\<close>, twenty-two codes; the four
  modifier tokens are not reserved.
\<close>

theorem reserved_check:
  "(isReservedBinding token \<longleftrightarrow>
      (\<exists>code \<in> set (getBindingEventCodes token). code \<in> RESERVED_CODES))
   \<and> RESERVED_CODES =
       JString ` ({''Escape'', ''KeyM''} \<union> set (prefixed ''Digit'' ''0123456789'')
                  \<union> set (prefixed ''Numpad'' ''0123456789''))
   \<and> card RESERVED_CODES = 22
   \<and> isReservedBinding (JString ''Shift'') = False
   \<and> isReservedBinding (JString ''Control'') = False
   \<and> isReservedBinding (JString ''Alt'') = False
   \<and> isReservedBinding (JString ''Meta'') = False"
proof (intro conjI)
  show "isReservedBinding token \<longleftrightarrow>
      (\<exists>code \<in> set (getBindingEventCodes token). code \<in> RESERVED_CODES)"
    unfolding isReservedBinding_def list_ex_iff ..
  show "RESERVED_CODES =
       JString ` ({''Escape'', ''KeyM''} \<union> set (prefixed ''Digit'' ''0123456789'')
                  \<union> set (prefixed ''Numpad'' ''0123456789''))"
    by (auto simp: RESERVED_CODES_def prefixed_def)
  show "card RESERVED_CODES = 22"
    by (simp add: RESERVED_CODES_def)
  show "isReservedBinding (JString ''Shift'') = False"
    by (simp add: isReservedBinding_def RESERVED_CODES_def)
  show "isReservedBinding (JString ''Control'') = False"
    by (simp add: isReservedBinding_def RESERVED_CODES_def)
  show "isReservedBinding (JString ''Alt'') = False"
    by (simp add: isReservedBinding_def RESERVED_CODES_def)
  show "isReservedBinding (JString ''Meta'') = False"
    by (simp add: isReservedBinding_def RESERVED_CODES_def)
qed

text \<open>
  Claim C8: for every mapping, action \<open>a\<close> and candidate token \<open>c\<close>, the conflict check
  returns the first action in registry order that is not \<open>a\<close> and is bound to exactly
  \<open>c\<close>; it returns nothing exactly when no other action is bound to \<open>c\<close>; it never
  returns \<open>a\<close>. On the default mapping, the check for \<^verbatim>\<open>interact\<close> with the key of
  \<^verbatim>\<open>chat\<close> returns \<^verbatim>\<open>chat\<close>.
\<close>

theorem find_first:
  "(findBindingConflict bindings a (JString c) = Some r \<longleftrightarrow>
      (\<exists>i < length REBINDABLE_ACTION_IDS.
          REBINDABLE_ACTION_IDS ! i = r \<and> r \<noteq> a \<and> bindings r = JString c \<and>
          (\<forall>j < i. REBINDABLE_ACTION_IDS ! j = a
                \<or> bindings (REBINDABLE_ACTION_IDS ! j) \<noteq> JString c)))
   \<and> (findBindingConflict bindings a (JString c) = None \<longleftrightarrow>
        (\<forall>other. other = a \<or> bindings other \<noteq> JString c))
   \<and> findBindingConflict bindings a (JString c) \<noteq> Some a
   \<and> findBindingConflict DEFAULT_RUNTIME_KEYBINDINGS interact (DEFAULT_RUNTIME_KEYBINDINGS chat)
       = Some chat"
proof (intro conjI)
  show "findBindingConflict bindings a (JString c) = Some r \<longleftrightarrow>
      (\<exists>i < length REBINDABLE_ACTION_IDS.
          REBINDABLE_ACTION_IDS ! i = r \<and> r \<noteq> a \<and> bindings r = JString c \<and>
          (\<forall>j < i. REBINDABLE_ACTION_IDS ! j = a
                \<or> bindings (REBINDABLE_ACTION_IDS ! j) \<noteq> JString c))"
    unfolding findBindingConflict_def conflict_find find_Some_iff by blast
  show "findBindingConflict bindings a (JString c) = None \<longleftrightarrow>
        (\<forall>other. other = a \<or> bindings other \<noteq> JString c)"
    unfolding findBindingConflict_def conflict_find find_None_iff registry_complete by blast
  show "findBindingConflict bindings a (JString c) \<noteq> Some a"
    unfolding findBindingConflict_def conflict_find find_Some_iff by blast
  show "findBindingConflict DEFAULT_RUNTIME_KEYBINDINGS interact (DEFAULT_RUNTIME_KEYBINDINGS chat)
       = Some chat"
    by (simp add: findBindingConflict_def REBINDABLE_ACTION_IDS_def)
qed

theorem find_first_witness:
  "findBindingConflict DEFAULT_RUNTIME_KEYBINDINGS interact (JString ''KeyY'') = Some chat
   \<and> (\<exists>i < length REBINDABLE_ACTION_IDS.
          REBINDABLE_ACTION_IDS ! i = chat \<and> chat \<noteq> interact
          \<and> DEFAULT_RUNTIME_KEYBINDINGS chat = JString ''KeyY'' \<and>
          (\<forall>j < i. REBINDABLE_ACTION_IDS ! j = interact
                \<or> DEFAULT_RUNTIME_KEYBINDINGS (REBINDABLE_ACTION_IDS ! j) \<noteq> JString ''KeyY''))"
proof -
  have h: "findBindingConflict DEFAULT_RUNTIME_KEYBINDINGS interact (JString ''KeyY'') = Some chat"
    by (simp add: findBindingConflict_def REBINDABLE_ACTION_IDS_def)
  with find_first [of DEFAULT_RUNTIME_KEYBINDINGS interact "''KeyY''" chat] show ?thesis
    by blast
qed

section \<open>The sanitizer: claims C1, C2 and C4\<close>

text \<open>
  Claim C4: the sanitizer applied to \<^verbatim>\<open>{moveUp: "KeyD", moveRight: "KeyD"}\<close> binds
  \<^verbatim>\<open>moveUp\<close> to \<^verbatim>\<open>KeyD\<close>, because it comes first in the registry, and leaves
  \<^verbatim>\<open>moveRight\<close> and every other action at its default.

  As stated this fails: \<^verbatim>\<open>KeyD\<close> is the default of \<^verbatim>\<open>moveRight\<close>, and the set of
  tokens in use starts with every default, so the request of \<^verbatim>\<open>moveUp\<close> is discarded
  while \<^verbatim>\<open>moveRight\<close> still holds the key.
\<close>

theorem duplicate_request_counterexample:
  "\<not> (sanitizeBindings duplicateRequest moveUp = JString ''KeyD''
      \<and> sanitizeBindings duplicateRequest moveRight = DEFAULT_RUNTIME_KEYBINDINGS moveRight)"
  by code_simp

text \<open>
  Claim C4, amended: the sanitizer applied to \<^verbatim>\<open>{moveUp: "KeyD", moveRight: "KeyD"}\<close>
  returns the default mapping: \<^verbatim>\<open>moveUp\<close> stays at \<^verbatim>\<open>KeyW\<close>, \<^verbatim>\<open>moveRight\<close> is
  bound to \<^verbatim>\<open>KeyD\<close>, its default, and every other action is at its default. Registry
  order decides between two requests for a token that is not in use: for
  \<^verbatim>\<open>{moveUp: "KeyZ", moveLeft: "KeyZ"}\<close> the earlier \<^verbatim>\<open>moveUp\<close> gets \<^verbatim>\<open>KeyZ\<close> and
  \<^verbatim>\<open>moveLeft\<close> keeps its default.
\<close>

theorem duplicate_request_default:
  "sanitizeBindings duplicateRequest = DEFAULT_RUNTIME_KEYBINDINGS
   \<and> DEFAULT_RUNTIME_KEYBINDINGS moveUp = JString ''KeyW''
   \<and> DEFAULT_RUNTIME_KEYBINDINGS moveRight = JString ''KeyD''
   \<and> sanitizeBindings contestedRequest = DEFAULT_RUNTIME_KEYBINDINGS(moveUp := JString ''KeyZ'')"
proof (intro conjI)
  show "sanitizeBindings duplicateRequest = DEFAULT_RUNTIME_KEYBINDINGS"
    by (rule bindings_eqI) code_simp
  show "sanitizeBindings contestedRequest = DEFAULT_RUNTIME_KEYBINDINGS(moveUp := JString ''KeyZ'')"
    by (rule bindings_eqI) code_simp
qed simp_all

text \<open>
  Claim C1: for every input the sanitizer returns a mapping that is complete (each of the
  fifteen actions has a binding token), injective and free of reserved tokens.

  The alias table is a plain object, and the normaliser reads it with the lower-cased
  input as the key without asking whether the property is the table's own. For the key
  \<^verbatim>\<open>constructor\<close> the read gives the inherited function \<^verbatim>\<open>Object\<close>, which is truthy
  and is returned as the token. The sanitizer stores it: on
  \<^verbatim>\<open>{moveUp: "constructor"}\<close> the action \<^verbatim>\<open>moveUp\<close> is bound to a function, not to a
  binding token. (The mapping is injective and free of reserved tokens for every input,
  lemmas \<open>sanitize_inj\<close> and \<open>sanitize_not_reserved\<close>; it is a mapping of tokens for every
  input without such a field, lemma \<open>sanitize_strings\<close>.)
\<close>

theorem sanitize_inherited:
  "sanitizeBindings inheritedRequest moveUp = JInherited ''constructor''
   \<and> typeof (sanitizeBindings inheritedRequest moveUp) = ''function''"
  by code_simp

text \<open>
  Claim C2: the sanitizer is idempotent.

  On \<^verbatim>\<open>{moveUp: "constructor"}\<close> it is not. The first pass binds \<^verbatim>\<open>moveUp\<close> to the
  inherited function; the second pass reads that field, finds that it is not a string, and
  leaves \<^verbatim>\<open>moveUp\<close> at its default \<^verbatim>\<open>KeyW\<close>. (Whenever the first pass returns
  strings only, the second pass returns the same mapping, lemma
  \<open>sanitize_idempotent_strings\<close>.)
\<close>

theorem sanitize_twice_differs:
  "sanitizeBindings inheritedRequest moveUp = JInherited ''constructor''
   \<and> sanitizeBindings (bindingsObject (sanitizeBindings inheritedRequest)) moveUp
       = JString ''KeyW''"
  by code_simp

section \<open>Persistence: claims C3 and C9\<close>

text \<open>
  Claim C3: when the storage accepts the write, loading right after saving \<open>m\<close> returns
  the sanitized \<open>m\<close>.

  For the mapping that is the default but for \<^verbatim>\<open>moveUp: "constructor"\<close>, saving returns
  the sanitized mapping, in which \<^verbatim>\<open>moveUp\<close> is the inherited function. A function has
  no JSON text, so the stored object has no \<^verbatim>\<open>moveUp\<close>, and loading returns the
  default mapping, with \<^verbatim>\<open>moveUp\<close> at \<^verbatim>\<open>KeyW\<close>. (Whenever the sanitized mapping
  holds strings only, loading returns it, lemma \<open>round_trip_strings\<close>.)
\<close>

theorem round_trip_drops_inherited:
  "fst (saveRuntimeKeybindings (Some freshWindow) inheritedBindings)
     = Inr (sanitizeBindings (bindingsObject inheritedBindings))
   \<and> loadRuntimeKeybindings (snd (saveRuntimeKeybindings (Some freshWindow) inheritedBindings))
     = Inr DEFAULT_RUNTIME_KEYBINDINGS
   \<and> sanitizeBindings (bindingsObject inheritedBindings) moveUp = JInherited ''constructor''
   \<and> DEFAULT_RUNTIME_KEYBINDINGS moveUp = JString ''KeyW''"
proof (intro conjI)
  show "fst (saveRuntimeKeybindings (Some freshWindow) inheritedBindings)
     = Inr (sanitizeBindings (bindingsObject inheritedBindings))"
    by (simp add: saveRuntimeKeybindings_def Let_def freshWindow_def
        syncSharedKeybindingDisplayConfig_def)
  show "loadRuntimeKeybindings (snd (saveRuntimeKeybindings (Some freshWindow) inheritedBindings))
     = Inr DEFAULT_RUNTIME_KEYBINDINGS"
    by (rule load_result_eqI) code_simp
  show "sanitizeBindings (bindingsObject inheritedBindings) moveUp = JInherited ''constructor''"
    by code_simp
  show "DEFAULT_RUNTIME_KEYBINDINGS moveUp = JString ''KeyW''"
    by simp
qed

text \<open>
  Claim C9: loading never raises; it returns the default mapping when the entry is absent
  or does not parse, and otherwise the parsed value passed through the sanitizer, hence
  always a valid mapping.

  Loading never raises and falls back to the default mapping as claimed (lemmas
  \<open>load_total\<close> and \<open>load_fallback\<close>). The last part fails.
  When the entry is \<^verbatim>\<open>{"moveUp":"constructor"}\<close>, loading returns the sanitized value,
  in which \<^verbatim>\<open>moveUp\<close> is bound to a function: not a valid mapping. When the entry is
  \<^verbatim>\<open>{"interact":"constructor"}\<close> and the legacy table exists, writing the label of
  \<^verbatim>\<open>interact\<close> throws inside the \<^verbatim>\<open>try\<close>, and loading returns the default mapping
  instead of the sanitized value.
\<close>

theorem load_inherited:
  "loadRuntimeKeybindings (Some inheritedStored) = Inr (sanitizeBindings inheritedRequest)
   \<and> sanitizeBindings inheritedRequest moveUp = JInherited ''constructor''
   \<and> typeof (JInherited ''constructor'') = ''function''
   \<and> loadRuntimeKeybindings (Some legacyStored) = Inr DEFAULT_RUNTIME_KEYBINDINGS
   \<and> sanitizeBindings (JObject [(''interact'', JString ''constructor'')]) interact
       = JInherited ''constructor''"
proof (intro conjI)
  show "loadRuntimeKeybindings (Some inheritedStored) = Inr (sanitizeBindings inheritedRequest)"
    by (rule load_result_eqI) code_simp
  show "sanitizeBindings inheritedRequest moveUp = JInherited ''constructor''"
    by code_simp
  show "typeof (JInherited ''constructor'') = ''function''"
    by simp
  show "loadRuntimeKeybindings (Some legacyStored) = Inr DEFAULT_RUNTIME_KEYBINDINGS"
    by (rule load_result_eqI) code_simp
  show "sanitizeBindings (JObject [(''interact'', JString ''constructor'')]) interact
       = JInherited ''constructor''"
    by code_simp
qed

end
